theory Spec2Isabelle
  imports Main "HOL-Library.Word"
begin

unbundle bit_operations_syntax

section \<open>Data model\<close>

text \<open>
  The two sketches \<^verbatim>\<open>tsl2591.cpp\<close> and \<^verbatim>\<open>tsl2591_interrupt.cpp\<close> drive a TSL2591 light
  sensor through the class \<^verbatim>\<open>Adafruit_TSL2591\<close>. The header of that class is not among
  the sources; the enumerations below list the enumerators that the sketches name.
\<close>

datatype tsl2591Gain_t =
  TSL2591_GAIN_LOW | TSL2591_GAIN_MED | TSL2591_GAIN_HIGH | TSL2591_GAIN_MAX

datatype tsl2591IntegrationTime_t =
  TSL2591_INTEGRATIONTIME_100MS | TSL2591_INTEGRATIONTIME_200MS
| TSL2591_INTEGRATIONTIME_300MS | TSL2591_INTEGRATIONTIME_400MS
| TSL2591_INTEGRATIONTIME_500MS | TSL2591_INTEGRATIONTIME_600MS

datatype tsl2591Persist_t =
  TSL2591_PERSIST_ANY | TSL2591_PERSIST_5 | TSL2591_PERSIST_60

type_synonym uint8_t = "8 word"
type_synonym uint16_t = "16 word"
type_synonym uint32_t = "32 word"

text \<open>
  The sketches are built for Mbed OS (\<^verbatim>\<open>mbed.h\<close>, \<^verbatim>\<open>thread_sleep_for\<close>), whose targets
  have a 32-bit \<^verbatim>\<open>int\<close>. A \<^verbatim>\<open>c_int\<close> is the bit pattern of such an \<^verbatim>\<open>int\<close>; \<open>sint\<close> reads
  its value.
\<close>

type_synonym c_int = "32 word"

text \<open>
  An argument of a \<^verbatim>\<open>printf\<close> call after the default argument promotions: an \<^verbatim>\<open>int\<close>
  (given by its value) or the floating-point result of \<^verbatim>\<open>calculateLux\<close>, whose
  representation \<open>'f\<close> is left open.
\<close>

datatype 'f printf_arg = ArgInt int | ArgDouble 'f

text \<open>
  What the program does that is visible from outside: the calls it makes on the sensor
  object, with their arguments, the \<^verbatim>\<open>printf\<close> calls, with format string and arguments,
  and the calls of \<^verbatim>\<open>thread_sleep_for\<close>, with the number of milliseconds.
\<close>

datatype 'f event =
  Call_begin
| Call_getID
| Call_setGain tsl2591Gain_t
| Call_setTiming tsl2591IntegrationTime_t
| Call_getGain
| Call_clearInterrupt
| Call_registerInterrupt uint16_t uint16_t tsl2591Persist_t
| Call_getFullLuminosity
| Call_calculateLux uint16_t uint16_t
| Call_getStatus
| Printf string "'f printf_arg list"
| Sleep nat

text \<open>
  The collaborators of the sketches: the member functions of \<^verbatim>\<open>Adafruit_TSL2591\<close> that
  they call and \<^verbatim>\<open>thread_sleep_for\<close>. None of them is in the sources, so they are
  parameters: each is a function on the state \<open>'d\<close> of everything outside the program
  (sensor, bus, clock), returning its result and the next state.
\<close>

record ('d, 'f) collaborator =
  tsl_begin :: "'d \<Rightarrow> bool \<times> 'd"
  tsl_getID :: "'d \<Rightarrow> uint8_t \<times> 'd"
  tsl_setGain :: "tsl2591Gain_t \<Rightarrow> 'd \<Rightarrow> 'd"
  tsl_setTiming :: "tsl2591IntegrationTime_t \<Rightarrow> 'd \<Rightarrow> 'd"
  tsl_getGain :: "'d \<Rightarrow> tsl2591Gain_t \<times> 'd"
  tsl_clearInterrupt :: "'d \<Rightarrow> 'd"
  tsl_registerInterrupt :: "uint16_t \<Rightarrow> uint16_t \<Rightarrow> tsl2591Persist_t \<Rightarrow> 'd \<Rightarrow> 'd"
  tsl_getFullLuminosity :: "'d \<Rightarrow> uint32_t \<times> 'd"
  tsl_calculateLux :: "uint16_t \<Rightarrow> uint16_t \<Rightarrow> 'd \<Rightarrow> 'f \<times> 'd"
  tsl_getStatus :: "'d \<Rightarrow> uint8_t \<times> 'd"
  thread_sleep_for :: "nat \<Rightarrow> 'd \<Rightarrow> 'd"

text \<open>The state the program runs in: the outside world and the events so far, oldest first.\<close>

record ('d, 'f) world =
  dev :: 'd
  out :: "'f event list"

definition emit :: "'f event \<Rightarrow> ('d, 'f) world \<Rightarrow> ('d, 'f) world" where
  "emit e w = w\<lparr>out := out w @ [e]\<rparr>"

definition printf :: "string \<Rightarrow> 'f printf_arg list \<Rightarrow> ('d, 'f) world \<Rightarrow> ('d, 'f) world" where
  "printf fmt args w = emit (Printf fmt args) w"

text \<open>A call that returns a value, and a call that returns none.\<close>

definition call :: "'f event \<Rightarrow> ('d \<Rightarrow> 'a \<times> 'd) \<Rightarrow> ('d, 'f) world \<Rightarrow> 'a \<times> ('d, 'f) world" where
  "call e f w = (case f (dev w) of (r, d') \<Rightarrow> (r, \<lparr>dev = d', out = out w @ [e]\<rparr>))"

definition call_void :: "'f event \<Rightarrow> ('d \<Rightarrow> 'd) \<Rightarrow> ('d, 'f) world \<Rightarrow> ('d, 'f) world" where
  "call_void e f w = \<lparr>dev = f (dev w), out = out w @ [e]\<rparr>"

section \<open>advancedRead\<close>

text \<open>
  \<^verbatim>\<open>ir = lum >> 16; full = lum & 0xFFFF;\<close> with \<^verbatim>\<open>uint32_t lum\<close> and \<^verbatim>\<open>uint16_t ir, full\<close>:
  each right-hand side is a 32-bit value, converted to 16 bits by the assignment.
\<close>

definition ir_of :: "uint32_t \<Rightarrow> uint16_t" where
  "ir_of lum = ucast (drop_bit 16 lum)"

definition full_of :: "uint32_t \<Rightarrow> uint16_t" where
  "full_of lum = ucast (lum AND 0xFFFF)"

text \<open>
  The integer promotion of a \<^verbatim>\<open>uint8_t\<close> or \<^verbatim>\<open>uint16_t\<close> operand or argument: every value
  of these types fits an \<^verbatim>\<open>int\<close>, so the operand becomes the \<^verbatim>\<open>int\<close> of the same value.
\<close>

definition promote :: "'a::len word \<Rightarrow> c_int" where
  "promote x = ucast x"

text \<open>
  The third argument of the \<^verbatim>\<open>printf\<close> in \<^verbatim>\<open>advancedRead\<close>, the expression \<^verbatim>\<open>full-ir\<close>:
  both operands are promoted, and the subtraction is the one of \<^verbatim>\<open>int\<close>.
\<close>

definition visible_of :: "uint16_t \<Rightarrow> uint16_t \<Rightarrow> c_int" where
  "visible_of full ir = promote full - promote ir"

text \<open>
  \<^verbatim>\<open>advancedRead\<close> has the same text in both sketches. The call of \<^verbatim>\<open>calculateLux\<close> is an
  argument of the \<^verbatim>\<open>printf\<close>, so it is made before the \<^verbatim>\<open>printf\<close>.
\<close>

definition advancedRead :: "('d, 'f) collaborator \<Rightarrow> ('d, 'f) world \<Rightarrow> ('d, 'f) world" where
  "advancedRead c w =
     (case call Call_getFullLuminosity (tsl_getFullLuminosity c) w of (lum, w1) \<Rightarrow>
      let ir = ir_of lum; full = full_of lum in
      case call (Call_calculateLux full ir) (tsl_calculateLux c full ir) w1 of (lux, w2) \<Rightarrow>
      printf ''IR: %d  Full: %d  Visible: %d  Lux: %f\<newline>''
        [ArgInt (sint (promote ir)), ArgInt (sint (promote full)),
         ArgInt (sint (visible_of full ir)), ArgDouble lux] w2)"

section \<open>configureSensor\<close>

text \<open>The \<^verbatim>\<open>switch\<close> on the gain that \<^verbatim>\<open>getGain\<close> returned: the text printed in each case.\<close>

fun gain_text :: "tsl2591Gain_t \<Rightarrow> string" where
  "gain_text TSL2591_GAIN_LOW = ''1x (Low)\<newline>''"
| "gain_text TSL2591_GAIN_MED = ''25x (Medium)\<newline>''"
| "gain_text TSL2591_GAIN_HIGH = ''428x (High)\<newline>''"
| "gain_text TSL2591_GAIN_MAX = ''9876x (Max)\<newline>''"

definition dashes :: string where
  "dashes = ''------------------------------------\<newline>''"

text \<open>
  \<^verbatim>\<open>configureSensor\<close> of \<^verbatim>\<open>tsl2591.cpp\<close>. The sketch lists a call of \<^verbatim>\<open>setGain\<close> for each
  gain and a call of \<^verbatim>\<open>setTiming\<close> for each integration time and leaves one of each
  uncommented; \<open>configureSensor_with\<close> is the function for a selection \<open>g\<close>, \<open>t\<close>, and
  \<open>configureSensor\<close> is the selection that the file makes.
\<close>

definition configureSensor_with ::
  "tsl2591Gain_t \<Rightarrow> tsl2591IntegrationTime_t \<Rightarrow>
   ('d, 'f) collaborator \<Rightarrow> ('d, 'f) world \<Rightarrow> ('d, 'f) world" where
  "configureSensor_with g t c w =
     (let w1 = call_void (Call_setGain g) (tsl_setGain c g) w;
          w2 = call_void (Call_setTiming t) (tsl_setTiming c t) w1;
          w3 = printf dashes [] w2;
          w4 = printf ''Gain:         '' [] w3
      in case call Call_getGain (tsl_getGain c) w4 of (gain, w5) \<Rightarrow>
         printf dashes [] (printf (gain_text gain) [] w5))"

definition configureSensor :: "('d, 'f) collaborator \<Rightarrow> ('d, 'f) world \<Rightarrow> ('d, 'f) world" where
  "configureSensor = configureSensor_with TSL2591_GAIN_MED TSL2591_INTEGRATIONTIME_300MS"

text \<open>The three macros of \<^verbatim>\<open>tsl2591_interrupt.cpp\<close>.\<close>

definition TLS2591_INT_THRESHOLD_LOWER :: int where
  "TLS2591_INT_THRESHOLD_LOWER = 100"

definition TLS2591_INT_THRESHOLD_UPPER :: int where
  "TLS2591_INT_THRESHOLD_UPPER = 1500"

definition TLS2591_INT_PERSIST :: tsl2591Persist_t where
  "TLS2591_INT_PERSIST = TSL2591_PERSIST_60"

text \<open>
  \<^verbatim>\<open>configureSensor\<close> of \<^verbatim>\<open>tsl2591_interrupt.cpp\<close>, for a selection of gain and integration
  time and for values \<open>lower\<close>, \<open>upper\<close>, \<open>persist\<close> of the three macros. The thresholds
  are \<^verbatim>\<open>int\<close> constants: \<^verbatim>\<open>registerInterrupt\<close> receives them converted to its
  parameters, which are unsigned 16-bit values according to the specification, and the
  last \<^verbatim>\<open>printf\<close> receives them as they are.
\<close>

definition configureSensor_int_with ::
  "tsl2591Gain_t \<Rightarrow> tsl2591IntegrationTime_t \<Rightarrow> int \<Rightarrow> int \<Rightarrow> tsl2591Persist_t \<Rightarrow>
   ('d, 'f) collaborator \<Rightarrow> ('d, 'f) world \<Rightarrow> ('d, 'f) world" where
  "configureSensor_int_with g t lower upper persist c w =
     (let w1 = call_void (Call_setGain g) (tsl_setGain c g) w;
          w2 = call_void (Call_setTiming t) (tsl_setTiming c t) w1;
          w3 = printf dashes [] w2;
          w4 = printf ''Gain:         '' [] w3
      in case call Call_getGain (tsl_getGain c) w4 of (gain, w5) \<Rightarrow>
         let w6 = printf dashes [] (printf (gain_text gain) [] w5);
             w7 = call_void Call_clearInterrupt (tsl_clearInterrupt c) w6;
             w8 = call_void
                    (Call_registerInterrupt (word_of_int lower) (word_of_int upper) persist)
                    (tsl_registerInterrupt c (word_of_int lower) (word_of_int upper) persist) w7
         in printf ''Interrupt Threshold Window: %d to %d\<newline>''
              [ArgInt lower, ArgInt upper] w8)"

definition configureSensor_int ::
  "('d, 'f) collaborator \<Rightarrow> ('d, 'f) world \<Rightarrow> ('d, 'f) world" where
  "configureSensor_int =
     configureSensor_int_with TSL2591_GAIN_MED TSL2591_INTEGRATIONTIME_100MS
       TLS2591_INT_THRESHOLD_LOWER TLS2591_INT_THRESHOLD_UPPER TLS2591_INT_PERSIST"

section \<open>getStatus\<close>

text \<open>
  \<^verbatim>\<open>getStatus\<close> of \<^verbatim>\<open>tsl2591_interrupt.cpp\<close>. In \<^verbatim>\<open>x & 0x10\<close> the \<^verbatim>\<open>uint8_t x\<close> is promoted;
  the condition holds when the result is not zero.
\<close>

definition getStatus :: "('d, 'f) collaborator \<Rightarrow> ('d, 'f) world \<Rightarrow> ('d, 'f) world" where
  "getStatus c w =
     (case call Call_getStatus (tsl_getStatus c) w of (x, w1) \<Rightarrow>
      let w2 = (if promote x AND 0x10 \<noteq> 0
                then printf ''ALS Interrupt occured\<newline>'' [] w1 else w1);
          w3 = (if promote x AND 0x20 \<noteq> 0
                then printf ''No-persist Interrupt occured\<newline>'' [] w2 else w2);
          w4 = printf ''Status: %x\<newline>'' [ArgInt (sint (promote x))] w3
      in call_void Call_clearInterrupt (tsl_clearInterrupt c) w4)"

section \<open>main\<close>

text \<open>
  \<^verbatim>\<open>main\<close> does not return in either sketch, so it is a machine that executes one
  statement per step. A label names the statement to execute next; \<open>L_return\<close> is the
  end of the function body.
\<close>

datatype label =
  L_start | L_begin | L_no_sensor | L_spin | L_configure | L_advancedRead | L_sleep | L_return

text \<open>
  \<^verbatim>\<open>main\<close> of \<^verbatim>\<open>tsl2591.cpp\<close>. The statement \<^verbatim>\<open>while (1);\<close> is the label \<open>L_spin\<close>: it is
  taken as the loop that is written, a step that changes nothing and stays where it is.
  The call of \<^verbatim>\<open>simpleRead\<close> in the loop is commented out, so the loop body is
  \<^verbatim>\<open>advancedRead\<close> and the sleep.
\<close>

fun main_step ::
  "('d, 'f) collaborator \<Rightarrow> label \<times> ('d, 'f) world \<Rightarrow> label \<times> ('d, 'f) world" where
  "main_step c (L_start, w) = (L_begin, printf ''Starting Adafruit TSL2591 Test!\<newline>'' [] w)"
| "main_step c (L_begin, w) =
     (case call Call_begin (tsl_begin c) w of (found, w1) \<Rightarrow>
      if \<not> found then (L_no_sensor, w1) else (L_configure, w1))"
| "main_step c (L_no_sensor, w) =
     (L_spin, printf ''No sensor found ... check your wiring?\<newline>'' [] w)"
| "main_step c (L_spin, w) = (L_spin, w)"
| "main_step c (L_configure, w) = (L_advancedRead, configureSensor c w)"
| "main_step c (L_advancedRead, w) = (L_sleep, advancedRead c w)"
| "main_step c (L_sleep, w) = (L_advancedRead, call_void (Sleep 500) (thread_sleep_for c 500) w)"
| "main_step c (L_return, w) = (L_return, w)"

primrec run_main :: "('d, 'f) collaborator \<Rightarrow> nat \<Rightarrow> 'd \<Rightarrow> label \<times> ('d, 'f) world" where
  "run_main c 0 d = (L_start, \<lparr>dev = d, out = []\<rparr>)"
| "run_main c (Suc n) d = main_step c (run_main c n d)"

datatype label_int =
  I_start | I_begin | I_no_sensor | I_spin | I_getID | I_configure
| I_advancedRead | I_getStatus | I_sleep | I_return

text \<open>\<^verbatim>\<open>main\<close> of \<^verbatim>\<open>tsl2591_interrupt.cpp\<close>.\<close>

fun main_int_step ::
  "('d, 'f) collaborator \<Rightarrow> label_int \<times> ('d, 'f) world \<Rightarrow> label_int \<times> ('d, 'f) world" where
  "main_int_step c (I_start, w) =
     (I_begin, printf ''Starting Adafruit TSL2591 interrupt Test!\<newline>'' [] w)"
| "main_int_step c (I_begin, w) =
     (case call Call_begin (tsl_begin c) w of (found, w1) \<Rightarrow>
      if \<not> found then (I_no_sensor, w1) else (I_getID, w1))"
| "main_int_step c (I_no_sensor, w) =
     (I_spin, printf ''No sensor found ... check your wiring?\<newline>'' [] w)"
| "main_int_step c (I_spin, w) = (I_spin, w)"
| "main_int_step c (I_getID, w) =
     (case call Call_getID (tsl_getID c) w of (ident_byte, w1) \<Rightarrow>
      (I_configure,
       printf dashes [] (printf ''ID: %x\<newline>'' [ArgInt (sint (promote ident_byte))] (printf dashes [] w1))))"
| "main_int_step c (I_configure, w) = (I_advancedRead, configureSensor_int c w)"
| "main_int_step c (I_advancedRead, w) = (I_getStatus, advancedRead c w)"
| "main_int_step c (I_getStatus, w) = (I_sleep, getStatus c w)"
| "main_int_step c (I_sleep, w) =
     (I_advancedRead, call_void (Sleep 500) (thread_sleep_for c 500) w)"
| "main_int_step c (I_return, w) = (I_return, w)"

primrec run_main_int ::
  "('d, 'f) collaborator \<Rightarrow> nat \<Rightarrow> 'd \<Rightarrow> label_int \<times> ('d, 'f) world" where
  "run_main_int c 0 d = (I_start, \<lparr>dev = d, out = []\<rparr>)"
| "run_main_int c (Suc n) d = main_int_step c (run_main_int c n d)"

section \<open>The collaborator of the specification\<close>

text \<open>
  Modelled from the spec: the state of the sensor behind \<^verbatim>\<open>Adafruit_TSL2591\<close>, which is
  not in the sources. It says whether the sensor answers the handshake and holds its
  identifier, the configured gain and integration time, the latched interrupt status, the
  interrupt configuration, and the combined reading.
\<close>

record sensor =
  present :: bool
  ident :: uint8_t
  gain :: tsl2591Gain_t
  timing :: tsl2591IntegrationTime_t
  latched :: uint8_t
  interrupt_config :: "(uint16_t \<times> uint16_t \<times> tsl2591Persist_t) option"
  reading :: uint32_t

text \<open>
  Modelled from the spec: the member functions of \<^verbatim>\<open>Adafruit_TSL2591\<close> and
  \<^verbatim>\<open>thread_sleep_for\<close>, which are not in the sources. \<^verbatim>\<open>begin\<close> reports whether the sensor
  is there; \<^verbatim>\<open>setGain\<close> and \<^verbatim>\<open>setTiming\<close> store the setting and \<^verbatim>\<open>getGain\<close> returns the
  stored gain; \<^verbatim>\<open>getStatus\<close> returns the latched status and \<^verbatim>\<open>clearInterrupt\<close> clears it;
  \<^verbatim>\<open>registerInterrupt\<close> stores the interrupt configuration, which stays until it is
  rewritten; \<^verbatim>\<open>getFullLuminosity\<close> returns the combined 32-bit reading. The lux
  conversion \<open>lux\<close> is a parameter.
\<close>

definition spec_collaborator ::
  "(uint16_t \<Rightarrow> uint16_t \<Rightarrow> 'f) \<Rightarrow> (sensor, 'f) collaborator" where
  "spec_collaborator lux =
     \<lparr>tsl_begin = (\<lambda>d. (present d, d)),
      tsl_getID = (\<lambda>d. (ident d, d)),
      tsl_setGain = (\<lambda>g d. d\<lparr>gain := g\<rparr>),
      tsl_setTiming = (\<lambda>t d. d\<lparr>timing := t\<rparr>),
      tsl_getGain = (\<lambda>d. (gain d, d)),
      tsl_clearInterrupt = (\<lambda>d. d\<lparr>latched := 0\<rparr>),
      tsl_registerInterrupt = (\<lambda>lower upper persist d.
         d\<lparr>interrupt_config := Some (lower, upper, persist)\<rparr>),
      tsl_getFullLuminosity = (\<lambda>d. (reading d, d)),
      tsl_calculateLux = (\<lambda>full ir d. (lux full ir, d)),
      tsl_getStatus = (\<lambda>d. (latched d, d)),
      thread_sleep_for = (\<lambda>ms d. d)\<rparr>"

text \<open>
  A sensor for the examples below: it answers the handshake, has both interrupt bits
  latched, and holds the reading with infrared 1000 and full spectrum 500.
\<close>

definition sensor0 :: sensor where
  "sensor0 =
     \<lparr>present = True, ident = 0x50, gain = TSL2591_GAIN_LOW,
      timing = TSL2591_INTEGRATIONTIME_600MS, latched = 0x30,
      interrupt_config = None, reading = 0x03E801F4\<rparr>"

definition collaborator0 :: "(sensor, unit) collaborator" where
  "collaborator0 = spec_collaborator (\<lambda>full ir. ())"

text \<open>
  A second collaborator for the examples: the state outside the program is a clock in
  milliseconds, which \<^verbatim>\<open>thread_sleep_for\<close> advances and no other call touches. The
  sensor answers the handshake and always holds the reading \<open>0x03E801F4\<close>.
\<close>

definition clock_collaborator :: "(nat, unit) collaborator" where
  "clock_collaborator =
     \<lparr>tsl_begin = (\<lambda>d. (True, d)),
      tsl_getID = (\<lambda>d. (0x50, d)),
      tsl_setGain = (\<lambda>g d. d),
      tsl_setTiming = (\<lambda>t d. d),
      tsl_getGain = (\<lambda>d. (TSL2591_GAIN_MED, d)),
      tsl_clearInterrupt = (\<lambda>d. d),
      tsl_registerInterrupt = (\<lambda>lower upper persist d. d),
      tsl_getFullLuminosity = (\<lambda>d. (0x03E801F4, d)),
      tsl_calculateLux = (\<lambda>full ir d. ((), d)),
      tsl_getStatus = (\<lambda>d. (0, d)),
      thread_sleep_for = (\<lambda>ms d. d + ms)\<rparr>"

section \<open>Kinds of events\<close>

fun is_sleep :: "'f event \<Rightarrow> bool" where
  "is_sleep (Sleep ms) = True"
| "is_sleep _ = False"

fun is_registerInterrupt :: "'f event \<Rightarrow> bool" where
  "is_registerInterrupt (Call_registerInterrupt lower upper persist) = True"
| "is_registerInterrupt _ = False"

fun poll_or_sleep :: "'f event \<Rightarrow> bool" where
  "poll_or_sleep Call_getFullLuminosity = True"
| "poll_or_sleep (Sleep ms) = True"
| "poll_or_sleep _ = False"

text \<open>
  A list that takes a poll and a sleep of 500 ms in turn; \<open>b\<close> says that a poll comes
  first.
\<close>

fun alternates :: "bool \<Rightarrow> 'f event list \<Rightarrow> bool" where
  "alternates b [] = True"
| "alternates b (e # es) =
     (e = (if b then Call_getFullLuminosity else Sleep 500) \<and> alternates (\<not> b) es)"

section \<open>Integer conversions\<close>

lemma mask16: "(0xFFFF :: 32 word) = mask 16"
  by (simp add: mask_eq_exp_minus_1)

lemma uint16_bounds: "0 \<le> uint (x :: 16 word) \<and> uint x < 65536"
  using uint_bounded[of x] by simp

lemma uint8_bounds: "0 \<le> uint (x :: 8 word) \<and> uint x < 256"
  using uint_bounded[of x] by simp

lemma signed_take_bit_31_small:
  "- 65536 < (k::int) \<Longrightarrow> k < 65536 \<Longrightarrow> signed_take_bit 31 k = k"
  by (simp add: signed_take_bit_int_eq_self_iff)

lemma sint_promote16: "sint (promote (x :: 16 word)) = uint x"
proof -
  have "- 65536 < uint x" "uint x < 65536" using uint16_bounds[of x] by linarith+
  then have "signed_take_bit 31 (uint x) = uint x"
    by (rule signed_take_bit_31_small)
  then show ?thesis
  unfolding promote_def
  by (simp add: signed_ucast_eq)
qed

lemma sint_promote8: "sint (promote (x :: 8 word)) = uint x"
proof -
  have "- 65536 < uint x" "uint x < 65536" using uint8_bounds[of x] by linarith+
  then have "signed_take_bit 31 (uint x) = uint x"
    by (rule signed_take_bit_31_small)
  then show ?thesis
  unfolding promote_def
  by (simp add: signed_ucast_eq)
qed

lemma sint_visible: "sint (visible_of full ir) = uint full - uint ir"
proof -
  have "- 65536 < uint full - uint ir" "uint full - uint ir < 65536"
    using uint16_bounds[of full] uint16_bounds[of ir] by linarith+
  then have "signed_take_bit 31 (uint full - uint ir) = uint full - uint ir"
    by (rule signed_take_bit_31_small)
  then show ?thesis
  unfolding visible_of_def 
  by (simp add: sint_word_ariths sint_promote16)
qed

lemma promote_bit4: "(promote (x :: 8 word) AND 0x10 \<noteq> 0) = bit x 4"
proof -
  have "(0x10 :: 32 word) = 2 ^ 4" by simp
  then show ?thesis
    unfolding promote_def
    by (simp only: and_exp_eq_0_iff_not_bit bit_ucast_iff) simp
qed

lemma promote_bit5: "(promote (x :: 8 word) AND 0x20 \<noteq> 0) = bit x 5"
proof -
  have "(0x20 :: 32 word) = 2 ^ 5" by simp
  then show ?thesis
    unfolding promote_def
    by (simp only: and_exp_eq_0_iff_not_bit bit_ucast_iff) simp
qed

lemma bit4_mask: "bit (x :: 8 word) 4 = (x AND 0x10 \<noteq> 0)"
proof -
  have "(0x10 :: 8 word) = 2 ^ 4" by simp
  then show ?thesis
    by (simp only: and_exp_eq_0_iff_not_bit) simp
qed

lemma bit5_mask: "bit (x :: 8 word) 5 = (x AND 0x20 \<noteq> 0)"
proof -
  have "(0x20 :: 8 word) = 2 ^ 5" by simp
  then show ?thesis
    by (simp only: and_exp_eq_0_iff_not_bit) simp
qed

section \<open>What advancedRead does\<close>

lemmas world_ops = call_def call_void_def printf_def emit_def

lemma advancedRead_out:
  assumes "tsl_getFullLuminosity c (dev w) = (lum, d1)"
    and "tsl_calculateLux c (full_of lum) (ir_of lum) d1 = (lux, d2)"
  shows "advancedRead c w =
     \<lparr>dev = d2,
      out = out w @ [Call_getFullLuminosity, Call_calculateLux (full_of lum) (ir_of lum),
        Printf ''IR: %d  Full: %d  Visible: %d  Lux: %f\<newline>''
          [ArgInt (uint (ir_of lum)), ArgInt (uint (full_of lum)),
           ArgInt (uint (full_of lum) - uint (ir_of lum)), ArgDouble lux]]\<rparr>"
  using assms
  by (simp add: advancedRead_def world_ops Let_def sint_promote16 sint_visible)


lemma recombine_split: "push_bit 16 (ucast (ir_of lum)) OR ucast (full_of lum) = lum"
  unfolding ir_of_def full_of_def mask16
  by (rule bit_word_eqI) (auto simp add: bit_simps)

lemma ir_of_recombine:
  "ir_of (push_bit 16 (ucast (ir :: 16 word)) OR ucast (full :: 16 word)) = ir"
  unfolding ir_of_def
  by (rule bit_word_eqI) (auto simp add: bit_simps dest: bit_imp_le_length)

lemma full_of_recombine:
  "full_of (push_bit 16 (ucast (ir :: 16 word)) OR ucast (full :: 16 word)) = full"
  unfolding full_of_def mask16
  by (rule bit_word_eqI) (auto simp add: bit_simps)

lemma uint_ir_of: "uint (ir_of lum) = uint lum div 65536"
proof -
  have "uint lum div 65536 < 65536" using uint_bounded[of lum] by simp
  moreover have "0 \<le> uint lum div 65536" by (simp add: pos_imp_zdiv_nonneg_iff)
  ultimately have "take_bit 16 (uint lum div 65536) = uint lum div 65536"
    by (simp add: take_bit_int_eq_self)
  then show ?thesis
    unfolding ir_of_def
    by (simp add: unsigned_ucast_eq unsigned_drop_bit_eq drop_bit_eq_div uint_div_distrib)
qed

lemma uint_full_of: "uint (full_of lum) = uint lum mod 65536"
  unfolding full_of_def mask16
  by (simp add: unsigned_ucast_eq take_bit_eq_mod unsigned_take_bit_eq uint_mod_distrib
      flip: take_bit_eq_mask)

text \<open>
  C9: the split of the combined value in \<^verbatim>\<open>advancedRead\<close> loses nothing. Shifting the
  infrared half back by 16 bits and joining it with the full-spectrum half gives the
  combined value again, splitting a joined pair gives the pair again, and so the split
  is a bijection between the 32-bit values and the pairs of 16-bit values.
\<close>

theorem split_is_lossless:
  "push_bit 16 (ucast (ir_of lum)) OR ucast (full_of lum) = lum
   \<and> ir_of (push_bit 16 (ucast ir) OR ucast full) = ir
   \<and> full_of (push_bit 16 (ucast ir) OR ucast full) = full
   \<and> bij (\<lambda>lum. (ir_of lum, full_of lum))"
proof -
  let ?split = "\<lambda>lum. (ir_of lum, full_of lum)"
  let ?join = "\<lambda>(ir :: uint16_t, full :: uint16_t). push_bit 16 (ucast ir) OR ucast full :: uint32_t"
  have "?join (?split l) = l" for l by (simp add: recombine_split)
  moreover have "?split (?join p) = p" for p
    by (cases p) (simp add: ir_of_recombine full_of_recombine)
  ultimately have "bij ?split"
    by (intro bijI'[where ?f = ?split]) (metis, metis)
  then show ?thesis
    by (simp add: recombine_split ir_of_recombine full_of_recombine)
qed

text \<open>
  C2: whatever 32-bit value \<open>lum\<close> the collaborator returns, \<^verbatim>\<open>advancedRead\<close> passes on and
  prints its high 16 bits as the infrared value and its low 16 bits as the full-spectrum
  value, and prints the difference of the two as the visible value; when the
  full-spectrum value is at least the infrared value, that difference is the 16-bit
  difference \<open>full - ir\<close>. Nothing else happens to the state: it is the one that the two
  collaborator calls leave.
\<close>

theorem poll_splits_reading:
  assumes "tsl_getFullLuminosity c (dev w) = (lum, d1)"
    and "tsl_calculateLux c (full_of lum) (ir_of lum) d1 = (lux, d2)"
  shows "advancedRead c w =
           \<lparr>dev = d2,
            out = out w @ [Call_getFullLuminosity, Call_calculateLux (full_of lum) (ir_of lum),
              Printf ''IR: %d  Full: %d  Visible: %d  Lux: %f\<newline>''
                [ArgInt (uint lum div 2 ^ 16), ArgInt (uint lum mod 2 ^ 16),
                 ArgInt (uint lum mod 2 ^ 16 - uint lum div 2 ^ 16), ArgDouble lux]]\<rparr>
         \<and> uint (ir_of lum) = uint lum div 2 ^ 16
         \<and> uint (full_of lum) = uint lum mod 2 ^ 16
         \<and> (ir_of lum \<le> full_of lum \<longrightarrow>
              uint lum mod 2 ^ 16 - uint lum div 2 ^ 16 = uint (full_of lum - ir_of lum))"
proof -
  have sub: "uint (full_of lum - ir_of lum) = uint (full_of lum) - uint (ir_of lum)"
    if "ir_of lum \<le> full_of lum"
    using that by (simp add: uint_minus_simple_alt)
  show ?thesis
    using advancedRead_out[OF assms(1,2)] sub
    by (simp add: uint_ir_of uint_full_of)
qed

theorem poll_splits_reading_witness:
  "tsl_getFullLuminosity collaborator0 (dev \<lparr>dev = sensor0\<lparr>reading := 0x01F403E8\<rparr>, out = []\<rparr>)
     = (0x01F403E8, sensor0\<lparr>reading := 0x01F403E8\<rparr>)
   \<and> tsl_calculateLux collaborator0 (full_of 0x01F403E8) (ir_of 0x01F403E8)
        (sensor0\<lparr>reading := 0x01F403E8\<rparr>) = ((), sensor0\<lparr>reading := 0x01F403E8\<rparr>)
   \<and> ir_of 0x01F403E8 \<le> full_of 0x01F403E8
   \<and> full_of 0x01F403E8 - ir_of 0x01F403E8 = 500
   \<and> advancedRead collaborator0 \<lparr>dev = sensor0\<lparr>reading := 0x01F403E8\<rparr>, out = []\<rparr> =
       \<lparr>dev = sensor0\<lparr>reading := 0x01F403E8\<rparr>,
        out = [Call_getFullLuminosity, Call_calculateLux 1000 500,
          Printf ''IR: %d  Full: %d  Visible: %d  Lux: %f\<newline>''
            [ArgInt 500, ArgInt 1000, ArgInt 500, ArgDouble ()]]\<rparr>
   \<and> tsl_getFullLuminosity collaborator0 (dev \<lparr>dev = sensor0, out = []\<rparr>) = (0x03E801F4, sensor0)
   \<and> tsl_calculateLux collaborator0 (full_of 0x03E801F4) (ir_of 0x03E801F4) sensor0
        = ((), sensor0)
   \<and> \<not> ir_of 0x03E801F4 \<le> full_of 0x03E801F4
   \<and> advancedRead collaborator0 \<lparr>dev = sensor0, out = []\<rparr> =
       \<lparr>dev = sensor0,
        out = [Call_getFullLuminosity, Call_calculateLux 500 1000,
          Printf ''IR: %d  Full: %d  Visible: %d  Lux: %f\<newline>''
            [ArgInt 1000, ArgInt 500, ArgInt (- 500), ArgDouble ()]]\<rparr>"
proof -
  let ?d = "sensor0\<lparr>reading := 0x01F403E8\<rparr>"
  have 1: "tsl_getFullLuminosity collaborator0 (dev \<lparr>dev = ?d, out = []\<rparr>) = (0x01F403E8, ?d)"
    by (simp add: collaborator0_def spec_collaborator_def sensor0_def)
  have 2: "tsl_calculateLux collaborator0 (full_of 0x01F403E8) (ir_of 0x01F403E8) ?d = ((), ?d)"
    by (simp add: collaborator0_def spec_collaborator_def)
  have 4: "full_of 0x01F403E8 = 1000" "ir_of 0x01F403E8 = 500"
    by (simp_all add: ir_of_def full_of_def)
  have 5: "tsl_getFullLuminosity collaborator0 (dev \<lparr>dev = sensor0, out = []\<rparr>)
      = (0x03E801F4, sensor0)"
    by (simp add: collaborator0_def spec_collaborator_def sensor0_def)
  have 6: "tsl_calculateLux collaborator0 (full_of 0x03E801F4) (ir_of 0x03E801F4) sensor0
      = ((), sensor0)"
    by (simp add: collaborator0_def spec_collaborator_def)
  have 7: "full_of 0x03E801F4 = 500" "ir_of 0x03E801F4 = 1000"
    by (simp_all add: ir_of_def full_of_def)
  have a: "advancedRead collaborator0 \<lparr>dev = ?d, out = []\<rparr> =
       \<lparr>dev = ?d,
        out = [Call_getFullLuminosity, Call_calculateLux 1000 500,
          Printf ''IR: %d  Full: %d  Visible: %d  Lux: %f\<newline>''
            [ArgInt 500, ArgInt 1000, ArgInt 500, ArgDouble ()]]\<rparr>"
    using poll_splits_reading[OF 1 2] by (simp add: 4)
  have b: "advancedRead collaborator0 \<lparr>dev = sensor0, out = []\<rparr> =
       \<lparr>dev = sensor0,
        out = [Call_getFullLuminosity, Call_calculateLux 500 1000,
          Printf ''IR: %d  Full: %d  Visible: %d  Lux: %f\<newline>''
            [ArgInt 1000, ArgInt 500, ArgInt (- 500), ArgDouble ()]]\<rparr>"
    using poll_splits_reading[OF 5 6] by (simp add: 7)
  show ?thesis
    using a b 1 2 5 6 by (simp add: 4 7)
qed

lemmas spec0 = collaborator0_def spec_collaborator_def sensor0_def

text \<open>
  C1, as stated, fails: when the collaborator returns the combined value \<open>0x03E801F4\<close>,
  \<^verbatim>\<open>advancedRead\<close> does not print 65036 as the visible value. The operands of \<^verbatim>\<open>full-ir\<close>
  are promoted to \<^verbatim>\<open>int\<close>, and the value printed is \<open>-500\<close>.
\<close>

theorem scenario_visible_is_not_65036:
  "tsl_getFullLuminosity collaborator0 sensor0 = (0x03E801F4, sensor0)
   \<and> Printf ''IR: %d  Full: %d  Visible: %d  Lux: %f\<newline>''
         [ArgInt 1000, ArgInt 500, ArgInt 65036, ArgDouble ()]
       \<notin> set (out (advancedRead collaborator0 \<lparr>dev = sensor0, out = []\<rparr>))
   \<and> out (advancedRead collaborator0 \<lparr>dev = sensor0, out = []\<rparr>) =
       [Call_getFullLuminosity, Call_calculateLux 500 1000,
        Printf ''IR: %d  Full: %d  Visible: %d  Lux: %f\<newline>''
          [ArgInt 1000, ArgInt 500, ArgInt (- 500), ArgDouble ()]]"
proof -
  have 1: "tsl_getFullLuminosity collaborator0 (dev \<lparr>dev = sensor0, out = []\<rparr>)
            = (0x03E801F4, sensor0)"
    by (simp add: spec0)
  have 4: "full_of 0x03E801F4 = 500" "ir_of 0x03E801F4 = 1000"
    by (simp_all add: ir_of_def full_of_def)
  have 2: "tsl_calculateLux collaborator0 (full_of 0x03E801F4) (ir_of 0x03E801F4) sensor0
            = ((), sensor0)"
    by (simp add: collaborator0_def spec_collaborator_def)
  show ?thesis
    using advancedRead_out[OF 1 2] 1 by (simp add: 4)
qed

text \<open>
  C1, amended: when the collaborator returns the combined value \<open>0x03E801F4\<close>,
  \<^verbatim>\<open>advancedRead\<close> splits it into infrared 1000 and full spectrum 500, and the visible
  value it prints is the signed difference \<open>500 - 1000 = -500\<close>, which is congruent to
  65036 modulo 65536.
\<close>

theorem scenario_visible_is_signed_difference:
  assumes "tsl_getFullLuminosity c (dev w) = (0x03E801F4, d1)"
    and "tsl_calculateLux c 500 1000 d1 = (lux, d2)"
  shows "ir_of 0x03E801F4 = 1000 \<and> full_of 0x03E801F4 = 500
         \<and> out (advancedRead c w) =
             out w @ [Call_getFullLuminosity, Call_calculateLux 500 1000,
               Printf ''IR: %d  Full: %d  Visible: %d  Lux: %f\<newline>''
                 [ArgInt 1000, ArgInt 500, ArgInt (- 500), ArgDouble lux]]
         \<and> sint (visible_of 500 1000) = - 500
         \<and> (- 500 :: int) mod 2 ^ 16 = 65036"
proof -
  have 4: "full_of 0x03E801F4 = 500" "ir_of 0x03E801F4 = 1000"
    by (simp_all add: ir_of_def full_of_def)
  from assms(2) have 2: "tsl_calculateLux c (full_of 0x03E801F4) (ir_of 0x03E801F4) d1 = (lux, d2)"
    by (simp add: 4)
  show ?thesis
    using advancedRead_out[OF assms(1) 2] by (simp add: 4 sint_visible)
qed

theorem scenario_visible_is_signed_difference_witness:
  "tsl_getFullLuminosity collaborator0 (dev \<lparr>dev = sensor0, out = []\<rparr>) = (0x03E801F4, sensor0)
   \<and> tsl_calculateLux collaborator0 500 1000 sensor0 = ((), sensor0)
   \<and> out (advancedRead collaborator0 \<lparr>dev = sensor0, out = []\<rparr>) =
       [Call_getFullLuminosity, Call_calculateLux 500 1000,
        Printf ''IR: %d  Full: %d  Visible: %d  Lux: %f\<newline>''
          [ArgInt 1000, ArgInt 500, ArgInt (- 500), ArgDouble ()]]"
proof -
  have 1: "tsl_getFullLuminosity collaborator0 (dev \<lparr>dev = sensor0, out = []\<rparr>)
            = (0x03E801F4, sensor0)"
    by (simp add: spec0)
  have 2: "tsl_calculateLux collaborator0 500 1000 sensor0 = ((), sensor0)"
    by (simp add: collaborator0_def spec_collaborator_def)
  show ?thesis
    using scenario_visible_is_signed_difference[OF 1 2] 1 2 by simp
qed

section \<open>What getStatus does\<close>

lemma getStatus_world:
  assumes "tsl_getStatus c (dev w) = (x, d1)"
  shows "getStatus c w =
     \<lparr>dev = tsl_clearInterrupt c d1,
      out = out w @ [Call_getStatus]
        @ (if bit x 4 then [Printf ''ALS Interrupt occured\<newline>'' []] else [])
        @ (if bit x 5 then [Printf ''No-persist Interrupt occured\<newline>'' []] else [])
        @ [Printf ''Status: %x\<newline>'' [ArgInt (uint x)], Call_clearInterrupt]\<rparr>"
  using assms
  by (simp add: getStatus_def world_ops Let_def promote_bit4 promote_bit5 sint_promote8)

text \<open>
  C5: for every status byte \<open>x\<close> that the collaborator returns, \<^verbatim>\<open>getStatus\<close> prints the
  ALS message exactly when bit 4 (mask \<open>0x10\<close>) of \<open>x\<close> is set and the no-persist message
  exactly when bit 5 (mask \<open>0x20\<close>) is set, each whatever the other bit is; no other bit
  of \<open>x\<close> decides what is reported.
\<close>

theorem getStatus_reports_two_bits:
  assumes "tsl_getStatus c (dev w) = (x, d1)"
  shows "out (getStatus c w) =
           out w @ [Call_getStatus]
             @ (if bit x 4 then [Printf ''ALS Interrupt occured\<newline>'' []] else [])
             @ (if bit x 5 then [Printf ''No-persist Interrupt occured\<newline>'' []] else [])
             @ [Printf ''Status: %x\<newline>'' [ArgInt (uint x)], Call_clearInterrupt]
         \<and> bit x 4 = (x AND 0x10 \<noteq> 0)
         \<and> bit x 5 = (x AND 0x20 \<noteq> 0)"
  using getStatus_world[OF assms] by (simp add: bit4_mask bit5_mask)

theorem getStatus_reports_two_bits_witness:
  "tsl_getStatus collaborator0 (dev \<lparr>dev = sensor0\<lparr>latched := 0x11\<rparr>, out = []\<rparr>)
     = (0x11, sensor0\<lparr>latched := 0x11\<rparr>)
   \<and> out (getStatus collaborator0 \<lparr>dev = sensor0\<lparr>latched := 0x11\<rparr>, out = []\<rparr>) =
       [Call_getStatus, Printf ''ALS Interrupt occured\<newline>'' [],
        Printf ''Status: %x\<newline>'' [ArgInt 17], Call_clearInterrupt]"
proof -
  have 1: "tsl_getStatus collaborator0 (dev \<lparr>dev = sensor0\<lparr>latched := 0x11\<rparr>, out = []\<rparr>)
     = (0x11, sensor0\<lparr>latched := 0x11\<rparr>)"
    by (simp add: spec0)
  have 2: "bit (0x11 :: 8 word) 4" "\<not> bit (0x11 :: 8 word) 5"
    by (simp_all add: bit4_mask bit5_mask)
  show ?thesis
    using getStatus_reports_two_bits[OF 1] 1 by (simp add: 2)
qed

text \<open>
  C4: on the collaborator of the specification, \<^verbatim>\<open>getStatus\<close> prints the bit pattern that
  is latched and leaves the latched status cleared, so a second call that follows at once
  prints the status zero and reports no interrupt.
\<close>

theorem getStatus_reads_then_clears:
  "out (getStatus (spec_collaborator lux) w) =
     out w @ [Call_getStatus]
       @ (if bit (latched (dev w)) 4 then [Printf ''ALS Interrupt occured\<newline>'' []] else [])
       @ (if bit (latched (dev w)) 5 then [Printf ''No-persist Interrupt occured\<newline>'' []] else [])
       @ [Printf ''Status: %x\<newline>'' [ArgInt (uint (latched (dev w)))], Call_clearInterrupt]
   \<and> latched (dev (getStatus (spec_collaborator lux) w)) = 0
   \<and> out (getStatus (spec_collaborator lux) (getStatus (spec_collaborator lux) w)) =
       out (getStatus (spec_collaborator lux) w)
         @ [Call_getStatus, Printf ''Status: %x\<newline>'' [ArgInt 0], Call_clearInterrupt]"
proof -
  let ?c = "spec_collaborator lux"
  have 1: "tsl_getStatus ?c (dev w) = (latched (dev w), dev w)"
    by (simp add: spec_collaborator_def)
  have first: "getStatus ?c w = \<lparr>dev = (dev w)\<lparr>latched := 0\<rparr>,
      out = out w @ [Call_getStatus]
        @ (if bit (latched (dev w)) 4 then [Printf ''ALS Interrupt occured\<newline>'' []] else [])
        @ (if bit (latched (dev w)) 5 then [Printf ''No-persist Interrupt occured\<newline>'' []] else [])
        @ [Printf ''Status: %x\<newline>'' [ArgInt (uint (latched (dev w)))], Call_clearInterrupt]\<rparr>"
    using getStatus_world[OF 1] by (simp add: spec_collaborator_def)
  have 2: "tsl_getStatus ?c (dev (getStatus ?c w)) = (0, (dev w)\<lparr>latched := 0\<rparr>)"
    by (simp add: first) (simp add: spec_collaborator_def)
  have second: "out (getStatus ?c (getStatus ?c w)) = out (getStatus ?c w)
         @ [Call_getStatus, Printf ''Status: %x\<newline>'' [ArgInt 0], Call_clearInterrupt]"
    using getStatus_world[OF 2] by simp
  show ?thesis
    using first second by simp
qed

section \<open>What configureSensor does\<close>

lemma configureSensor_with_world:
  assumes "tsl_getGain c (tsl_setTiming c t (tsl_setGain c g (dev w))) = (g', d1)"
  shows "configureSensor_with g t c w =
     \<lparr>dev = d1,
      out = out w @ [Call_setGain g, Call_setTiming t, Printf dashes [],
        Printf ''Gain:         '' [], Call_getGain, Printf (gain_text g') [],
        Printf dashes []]\<rparr>"
  using assms by (simp add: configureSensor_with_def world_ops Let_def)

lemma configureSensor_int_with_world:
  assumes "tsl_getGain c (tsl_setTiming c t (tsl_setGain c g (dev w))) = (g', d1)"
  shows "configureSensor_int_with g t lower upper persist c w =
     \<lparr>dev = tsl_registerInterrupt c (word_of_int lower) (word_of_int upper) persist
              (tsl_clearInterrupt c d1),
      out = out w @ [Call_setGain g, Call_setTiming t, Printf dashes [],
        Printf ''Gain:         '' [], Call_getGain, Printf (gain_text g') [],
        Printf dashes [], Call_clearInterrupt,
        Call_registerInterrupt (word_of_int lower) (word_of_int upper) persist,
        Printf ''Interrupt Threshold Window: %d to %d\<newline>'' [ArgInt lower, ArgInt upper]]\<rparr>"
  using assms by (simp add: configureSensor_int_with_def world_ops Let_def)

text \<open>
  C6: on the collaborator of the specification, for each of the four gains \<open>g\<close> (and
  each integration time), \<^verbatim>\<open>configureSensor\<close> with \<open>g\<close> selected prints the text of \<open>g\<close>
  for the gain that its own \<^verbatim>\<open>getGain\<close> call returns, and a \<^verbatim>\<open>getGain\<close> call after it
  returns \<open>g\<close>, in both sketches. The four texts are distinct.
\<close>

theorem gain_query_returns_gain_set:
  "out (configureSensor_with g t (spec_collaborator lux) w) =
     out w @ [Call_setGain g, Call_setTiming t, Printf dashes [],
       Printf ''Gain:         '' [], Call_getGain, Printf (gain_text g) [], Printf dashes []]
   \<and> fst (tsl_getGain (spec_collaborator lux)
           (dev (configureSensor_with g t (spec_collaborator lux) w))) = g
   \<and> out (configureSensor_int_with g t lower upper persist (spec_collaborator lux) w) =
     out w @ [Call_setGain g, Call_setTiming t, Printf dashes [],
       Printf ''Gain:         '' [], Call_getGain, Printf (gain_text g) [], Printf dashes [],
       Call_clearInterrupt,
       Call_registerInterrupt (word_of_int lower) (word_of_int upper) persist,
       Printf ''Interrupt Threshold Window: %d to %d\<newline>'' [ArgInt lower, ArgInt upper]]
   \<and> fst (tsl_getGain (spec_collaborator lux)
           (dev (configureSensor_int_with g t lower upper persist (spec_collaborator lux) w))) = g
   \<and> inj gain_text"
proof -
  let ?c = "spec_collaborator lux"
  have 1: "tsl_getGain ?c (tsl_setTiming ?c t (tsl_setGain ?c g (dev w)))
            = (g, (dev w)\<lparr>gain := g, timing := t\<rparr>)"
    by (simp add: spec_collaborator_def)
  have inj: "inj gain_text"
  proof (rule injI)
    fix a b assume "gain_text a = gain_text b"
    then show "a = b" by (cases a; cases b) simp_all
  qed
  show ?thesis
    using configureSensor_with_world[OF 1] configureSensor_int_with_world[OF 1] inj
    by (simp add: spec_collaborator_def)
qed


section \<open>The events of each function, by kind\<close>

lemma advancedRead_new_events:
  "\<exists>full ir lux. out (advancedRead c w) =
     out w @ [Call_getFullLuminosity, Call_calculateLux full ir,
       Printf ''IR: %d  Full: %d  Visible: %d  Lux: %f\<newline>''
         [ArgInt (uint ir), ArgInt (uint full), ArgInt (uint full - uint ir), ArgDouble lux]]"
proof -
  obtain lum d1 where 1: "tsl_getFullLuminosity c (dev w) = (lum, d1)"
    by (cases "tsl_getFullLuminosity c (dev w)")
  obtain lux d2 where 2: "tsl_calculateLux c (full_of lum) (ir_of lum) d1 = (lux, d2)"
    by (cases "tsl_calculateLux c (full_of lum) (ir_of lum) d1")
  show ?thesis
    using advancedRead_out[OF 1 2] by auto
qed

lemma getStatus_new_events:
  "\<exists>x :: uint8_t. out (getStatus c w) =
     out w @ [Call_getStatus]
        @ (if bit x 4 then [Printf ''ALS Interrupt occured\<newline>'' []] else [])
        @ (if bit x 5 then [Printf ''No-persist Interrupt occured\<newline>'' []] else [])
        @ [Printf ''Status: %x\<newline>'' [ArgInt (uint x)], Call_clearInterrupt]"
proof -
  obtain x d1 where 1: "tsl_getStatus c (dev w) = (x, d1)"
    by (cases "tsl_getStatus c (dev w)")
  have "out (getStatus c w) =
     out w @ [Call_getStatus]
        @ (if bit x 4 then [Printf ''ALS Interrupt occured\<newline>'' []] else [])
        @ (if bit x 5 then [Printf ''No-persist Interrupt occured\<newline>'' []] else [])
        @ [Printf ''Status: %x\<newline>'' [ArgInt (uint x)], Call_clearInterrupt]"
    by (simp add: getStatus_world[OF 1])
  then show ?thesis ..
qed

lemma configureSensor_new_events:
  "\<exists>g'. out (configureSensor c w) =
     out w @ [Call_setGain TSL2591_GAIN_MED, Call_setTiming TSL2591_INTEGRATIONTIME_300MS,
        Printf dashes [], Printf ''Gain:         '' [], Call_getGain, Printf (gain_text g') [],
        Printf dashes []]"
proof -
  obtain g' d1 where 1: "tsl_getGain c (tsl_setTiming c TSL2591_INTEGRATIONTIME_300MS
      (tsl_setGain c TSL2591_GAIN_MED (dev w))) = (g', d1)"
    by (cases "tsl_getGain c (tsl_setTiming c TSL2591_INTEGRATIONTIME_300MS
      (tsl_setGain c TSL2591_GAIN_MED (dev w)))")
  show ?thesis
    unfolding configureSensor_def by (simp add: configureSensor_with_world[OF 1]) blast
qed

lemma configureSensor_int_new_events:
  "\<exists>g'. out (configureSensor_int c w) =
     out w @ [Call_setGain TSL2591_GAIN_MED, Call_setTiming TSL2591_INTEGRATIONTIME_100MS,
        Printf dashes [], Printf ''Gain:         '' [], Call_getGain, Printf (gain_text g') [],
        Printf dashes [], Call_clearInterrupt,
        Call_registerInterrupt 100 1500 TSL2591_PERSIST_60,
        Printf ''Interrupt Threshold Window: %d to %d\<newline>'' [ArgInt 100, ArgInt 1500]]"
proof -
  obtain g' d1 where 1: "tsl_getGain c (tsl_setTiming c TSL2591_INTEGRATIONTIME_100MS
      (tsl_setGain c TSL2591_GAIN_MED (dev w))) = (g', d1)"
    by (cases "tsl_getGain c (tsl_setTiming c TSL2591_INTEGRATIONTIME_100MS
      (tsl_setGain c TSL2591_GAIN_MED (dev w)))")
  show ?thesis
    unfolding configureSensor_int_def
    by (simp add: configureSensor_int_with_world[OF 1] TLS2591_INT_THRESHOLD_LOWER_def
        TLS2591_INT_THRESHOLD_UPPER_def TLS2591_INT_PERSIST_def) blast
qed

lemma advancedRead_polls:
  "filter poll_or_sleep (out (advancedRead c w)) =
     filter poll_or_sleep (out w) @ [Call_getFullLuminosity]"
  using advancedRead_new_events[of c w] by auto

lemma getStatus_polls:
  "filter poll_or_sleep (out (getStatus c w)) = filter poll_or_sleep (out w)"
  using getStatus_new_events[of c w] by auto

lemma configureSensor_polls:
  "filter poll_or_sleep (out (configureSensor c w)) = filter poll_or_sleep (out w)"
  using configureSensor_new_events[of c w] by auto

lemma configureSensor_int_polls:
  "filter poll_or_sleep (out (configureSensor_int c w)) = filter poll_or_sleep (out w)"
  using configureSensor_int_new_events[of c w] by auto

lemma advancedRead_registers:
  "filter is_registerInterrupt (out (advancedRead c w)) = filter is_registerInterrupt (out w)"
  using advancedRead_new_events[of c w] by auto

lemma getStatus_registers:
  "filter is_registerInterrupt (out (getStatus c w)) = filter is_registerInterrupt (out w)"
  using getStatus_new_events[of c w] by auto

lemma configureSensor_int_registers:
  "filter is_registerInterrupt (out (configureSensor_int c w)) =
     filter is_registerInterrupt (out w) @ [Call_registerInterrupt 100 1500 TSL2591_PERSIST_60]"
  using configureSensor_int_new_events[of c w] by auto

section \<open>Polls and sleeps alternate\<close>

lemma concat_replicate_snoc:
  "concat (replicate k xs) @ xs = xs @ concat (replicate k xs)"
  by (induction k) simp_all

lemma alternates_rounds:
  "alternates True (concat (replicate k [Call_getFullLuminosity, Sleep 500]) @
     (if b then [Call_getFullLuminosity] else []))"
  by (induction k) simp_all

lemma alternates_between:
  assumes "alternates b (pre @ Call_getFullLuminosity # mid @ Call_getFullLuminosity # post)"
    and "Call_getFullLuminosity \<notin> set mid"
  shows "mid = [Sleep 500]"
  using assms
proof (induction pre arbitrary: b)
  case Nil
  then show ?case
  proof (cases mid)
    case Nil
    with Nil.prems show ?thesis by (auto split: if_splits)
  next
    case (Cons e mid')
    with Nil.prems show ?thesis
      by (cases mid') (auto split: if_splits)
  qed
next
  case (Cons e pre)
  from Cons.prems(1) have "alternates (\<not> b) (pre @ Call_getFullLuminosity # mid @ Call_getFullLuminosity # post)"
    by simp
  from Cons.IH[OF this Cons.prems(2)] show ?case .
qed

lemma alternates_sleep:
  "alternates b es \<Longrightarrow> Sleep ms \<in> set es \<Longrightarrow> ms = 500"
  by (induction es arbitrary: b) (auto split: if_splits)

lemma between_polls:
  assumes alt: "alternates True (filter poll_or_sleep es)"
    and es: "es = pre @ Call_getFullLuminosity # mid @ Call_getFullLuminosity # post"
    and mid: "Call_getFullLuminosity \<notin> set mid"
  shows "filter is_sleep mid = [Sleep 500]"
proof -
  have "filter poll_or_sleep es =
      filter poll_or_sleep pre @ Call_getFullLuminosity # filter poll_or_sleep mid @
        Call_getFullLuminosity # filter poll_or_sleep post"
    by (simp add: es)
  with alt have "alternates True (filter poll_or_sleep pre @ Call_getFullLuminosity #
      filter poll_or_sleep mid @ Call_getFullLuminosity # filter poll_or_sleep post)"
    by simp
  moreover have "Call_getFullLuminosity \<notin> set (filter poll_or_sleep mid)"
    using mid by simp
  ultimately have "filter poll_or_sleep mid = [Sleep 500]"
    by (rule alternates_between)
  then have "filter is_sleep (filter poll_or_sleep mid) = [Sleep 500]"
    by simp
  moreover have "is_sleep e \<Longrightarrow> poll_or_sleep e" for e :: "'a event"
    by (cases e) simp_all
  then have "filter is_sleep (filter poll_or_sleep xs) = filter is_sleep xs" for xs :: "'a event list"
    by (induction xs) auto
  ultimately show ?thesis by simp
qed

lemma sleep_in_trace:
  assumes alt: "alternates True (filter poll_or_sleep es)" and "Sleep ms \<in> set es"
  shows "ms = 500"
proof -
  from assms(2) have "Sleep ms \<in> set (filter poll_or_sleep es)"
    by simp
  with alt show ?thesis by (rule alternates_sleep)
qed

lemma run_main_polls:
  "\<exists>k. filter poll_or_sleep (out (snd (run_main c n d))) =
     concat (replicate k [Call_getFullLuminosity, Sleep 500]) @
       (if fst (run_main c n d) = L_sleep then [Call_getFullLuminosity] else [])"
proof (induction n)
  case 0
  show ?case by simp
next
  case (Suc n)
  obtain l w where lw: "run_main c n d = (l, w)" by (cases "run_main c n d")
  from Suc.IH lw obtain k where k: "filter poll_or_sleep (out w) =
     concat (replicate k [Call_getFullLuminosity, Sleep 500]) @
       (if l = L_sleep then [Call_getFullLuminosity] else [])" by auto
  show ?case
  proof (cases l)
    case L_sleep
    with k have "filter poll_or_sleep (out (snd (main_step c (l, w)))) =
        concat (replicate (Suc k) [Call_getFullLuminosity, Sleep 500])"
      using concat_replicate_snoc[of k "[Call_getFullLuminosity, Sleep 500]"]
      by (simp add: world_ops)
    with L_sleep lw show ?thesis by (intro exI[of _ "Suc k"]) simp
  next
    case L_begin
    with k lw show ?thesis
      by (intro exI[of _ k]) (auto simp add: world_ops split: prod.splits)
  next
    case L_advancedRead
    with k lw show ?thesis
      by (intro exI[of _ k]) (simp add: advancedRead_polls)
  next
    case L_configure
    with k lw show ?thesis
      by (intro exI[of _ k]) (simp add: configureSensor_polls)
  qed (use k lw in \<open>auto simp add: world_ops\<close>)
qed


lemma run_main_int_polls:
  "\<exists>k. filter poll_or_sleep (out (snd (run_main_int c n d))) =
     concat (replicate k [Call_getFullLuminosity, Sleep 500]) @
       (if fst (run_main_int c n d) \<in> {I_getStatus, I_sleep} then [Call_getFullLuminosity] else [])"
proof (induction n)
  case 0
  show ?case by simp
next
  case (Suc n)
  obtain l w where lw: "run_main_int c n d = (l, w)" by (cases "run_main_int c n d")
  from Suc.IH lw obtain k where k: "filter poll_or_sleep (out w) =
     concat (replicate k [Call_getFullLuminosity, Sleep 500]) @
       (if l \<in> {I_getStatus, I_sleep} then [Call_getFullLuminosity] else [])" by auto
  show ?case
  proof (cases l)
    case I_sleep
    with k have "filter poll_or_sleep (out (snd (main_int_step c (l, w)))) =
        concat (replicate (Suc k) [Call_getFullLuminosity, Sleep 500])"
      using concat_replicate_snoc[of k "[Call_getFullLuminosity, Sleep 500]"]
      by (simp add: world_ops)
    with I_sleep lw show ?thesis by (intro exI[of _ "Suc k"]) simp
  next
    case I_begin
    with k lw show ?thesis
      by (intro exI[of _ k]) (auto simp add: world_ops split: prod.splits)
  next
    case I_getID
    with k lw show ?thesis
      by (intro exI[of _ k]) (auto simp add: world_ops split: prod.splits)
  next
    case I_advancedRead
    with k lw show ?thesis
      by (intro exI[of _ k]) (simp add: advancedRead_polls)
  next
    case I_getStatus
    with k lw show ?thesis
      by (intro exI[of _ k]) (simp add: getStatus_polls)
  next
    case I_configure
    with k lw show ?thesis
      by (intro exI[of _ k]) (simp add: configureSensor_int_polls)
  qed (use k lw in \<open>auto simp add: world_ops\<close>)
qed

lemma run_main_alternates:
  "alternates True (filter poll_or_sleep (out (snd (run_main c n d))))"
proof -
  obtain k where "filter poll_or_sleep (out (snd (run_main c n d))) =
     concat (replicate k [Call_getFullLuminosity, Sleep 500]) @
       (if fst (run_main c n d) = L_sleep then [Call_getFullLuminosity] else [])"
    using run_main_polls[of c n d] by blast
  then show ?thesis by (simp only: alternates_rounds)
qed

lemma run_main_int_alternates:
  "alternates True (filter poll_or_sleep (out (snd (run_main_int c n d))))"
proof -
  obtain k where "filter poll_or_sleep (out (snd (run_main_int c n d))) =
     concat (replicate k [Call_getFullLuminosity, Sleep 500]) @
       (if fst (run_main_int c n d) \<in> {I_getStatus, I_sleep} then [Call_getFullLuminosity] else [])"
    using run_main_int_polls[of c n d] by blast
  then show ?thesis by (simp only: alternates_rounds)
qed

text \<open>
  C8: in every run of either sketch, whatever the collaborator does, between two
  consecutive calls of \<^verbatim>\<open>getFullLuminosity\<close> the program calls \<^verbatim>\<open>thread_sleep_for\<close> exactly
  once, with 500 ms, and every call of \<^verbatim>\<open>thread_sleep_for\<close> it ever makes is for 500 ms.
  The loop is the one written: the step after a poll is the sleep (in the interrupt
  sketch, \<^verbatim>\<open>getStatus\<close> and then the sleep), the sleep step hands the state outside the
  program to \<^verbatim>\<open>thread_sleep_for\<close> with 500 ms and records the call, and the step after it
  is the next poll.
\<close>

theorem sleep_500_between_polls:
  "(out (snd (run_main c n d)) =
      pre @ Call_getFullLuminosity # mid @ Call_getFullLuminosity # post
    \<and> Call_getFullLuminosity \<notin> set mid \<longrightarrow> filter is_sleep mid = [Sleep 500])
   \<and> (out (snd (run_main_int c n d)) =
      pre' @ Call_getFullLuminosity # mid' @ Call_getFullLuminosity # post'
    \<and> Call_getFullLuminosity \<notin> set mid' \<longrightarrow> filter is_sleep mid' = [Sleep 500])
   \<and> (Sleep ms \<in> set (out (snd (run_main c n d))) \<longrightarrow> ms = 500)
   \<and> (Sleep ms' \<in> set (out (snd (run_main_int c n d))) \<longrightarrow> ms' = 500)
   \<and> (fst (run_main c m d) = L_advancedRead \<longrightarrow>
        run_main c (Suc m) d = (L_sleep, advancedRead c (snd (run_main c m d))))
   \<and> (fst (run_main c m d) = L_sleep \<longrightarrow>
        run_main c (Suc m) d =
          (L_advancedRead,
           \<lparr>dev = thread_sleep_for c 500 (dev (snd (run_main c m d))),
            out = out (snd (run_main c m d)) @ [Sleep 500]\<rparr>))
   \<and> (fst (run_main_int c m' d) = I_advancedRead \<longrightarrow>
        run_main_int c (Suc m') d = (I_getStatus, advancedRead c (snd (run_main_int c m' d))))
   \<and> (fst (run_main_int c m' d) = I_getStatus \<longrightarrow>
        run_main_int c (Suc m') d = (I_sleep, getStatus c (snd (run_main_int c m' d))))
   \<and> (fst (run_main_int c m' d) = I_sleep \<longrightarrow>
        run_main_int c (Suc m') d =
          (I_advancedRead,
           \<lparr>dev = thread_sleep_for c 500 (dev (snd (run_main_int c m' d))),
            out = out (snd (run_main_int c m' d)) @ [Sleep 500]\<rparr>))"
proof -
  have steps: "fst (run_main c m d) = L_advancedRead \<longrightarrow>
        run_main c (Suc m) d = (L_sleep, advancedRead c (snd (run_main c m d)))"
    "fst (run_main c m d) = L_sleep \<longrightarrow>
        run_main c (Suc m) d =
          (L_advancedRead,
           \<lparr>dev = thread_sleep_for c 500 (dev (snd (run_main c m d))),
            out = out (snd (run_main c m d)) @ [Sleep 500]\<rparr>)"
    by (cases "run_main c m d"; simp add: call_void_def)+
  have steps_int: "fst (run_main_int c m' d) = I_advancedRead \<longrightarrow>
        run_main_int c (Suc m') d = (I_getStatus, advancedRead c (snd (run_main_int c m' d)))"
    "fst (run_main_int c m' d) = I_getStatus \<longrightarrow>
        run_main_int c (Suc m') d = (I_sleep, getStatus c (snd (run_main_int c m' d)))"
    "fst (run_main_int c m' d) = I_sleep \<longrightarrow>
        run_main_int c (Suc m') d =
          (I_advancedRead,
           \<lparr>dev = thread_sleep_for c 500 (dev (snd (run_main_int c m' d))),
            out = out (snd (run_main_int c m' d)) @ [Sleep 500]\<rparr>)"
    by (cases "run_main_int c m' d"; simp add: call_void_def)+
  show ?thesis
    using between_polls[OF run_main_alternates[of c n d], of pre mid post]
      between_polls[OF run_main_int_alternates[of c n d], of pre' mid' post']
      sleep_in_trace[OF run_main_alternates[of c n d], of ms]
      sleep_in_trace[OF run_main_int_alternates[of c n d], of ms']
      steps steps_int
    by blast
qed

lemma run_main_numeral:
  "run_main c (numeral k) d = main_step c (run_main c (pred_numeral k) d)"
  by (simp add: numeral_eq_Suc)

lemma run_main_int_numeral:
  "run_main_int c (numeral k) d = main_int_step c (run_main_int c (pred_numeral k) d)"
  by (simp add: numeral_eq_Suc)

lemmas run_example = run_main_numeral run_main_int_numeral spec0 world_ops configureSensor_def
  configureSensor_with_def configureSensor_int_def configureSensor_int_with_def
  advancedRead_def getStatus_def ir_of_def full_of_def promote_def visible_of_def
  TLS2591_INT_THRESHOLD_LOWER_def TLS2591_INT_THRESHOLD_UPPER_def
  TLS2591_INT_PERSIST_def dashes_def Let_def

theorem sleep_500_between_polls_witness:
  "out (snd (run_main collaborator0 8 sensor0)) =
     [Printf ''Starting Adafruit TSL2591 Test!\<newline>'' [], Call_begin,
      Call_setGain TSL2591_GAIN_MED, Call_setTiming TSL2591_INTEGRATIONTIME_300MS,
      Printf ''------------------------------------\<newline>'' [],
      Printf ''Gain:         '' [], Call_getGain, Printf ''25x (Medium)\<newline>'' [],
      Printf ''------------------------------------\<newline>'' []]
     @ Call_getFullLuminosity #
     [Call_calculateLux 500 1000,
      Printf ''IR: %d  Full: %d  Visible: %d  Lux: %f\<newline>''
        [ArgInt 1000, ArgInt 500, ArgInt (- 500), ArgDouble ()],
      Sleep 500]
     @ Call_getFullLuminosity #
     [Call_calculateLux 500 1000,
      Printf ''IR: %d  Full: %d  Visible: %d  Lux: %f\<newline>''
        [ArgInt 1000, ArgInt 500, ArgInt (- 500), ArgDouble ()],
      Sleep 500, Call_getFullLuminosity, Call_calculateLux 500 1000,
      Printf ''IR: %d  Full: %d  Visible: %d  Lux: %f\<newline>''
        [ArgInt 1000, ArgInt 500, ArgInt (- 500), ArgDouble ()]]
   \<and> out (snd (run_main_int collaborator0 8 sensor0)) =
     [Printf ''Starting Adafruit TSL2591 interrupt Test!\<newline>'' [], Call_begin, Call_getID,
      Printf ''------------------------------------\<newline>'' [],
      Printf ''ID: %x\<newline>'' [ArgInt 80],
      Printf ''------------------------------------\<newline>'' [],
      Call_setGain TSL2591_GAIN_MED, Call_setTiming TSL2591_INTEGRATIONTIME_100MS,
      Printf ''------------------------------------\<newline>'' [],
      Printf ''Gain:         '' [], Call_getGain, Printf ''25x (Medium)\<newline>'' [],
      Printf ''------------------------------------\<newline>'' [],
      Call_clearInterrupt, Call_registerInterrupt 100 1500 TSL2591_PERSIST_60,
      Printf ''Interrupt Threshold Window: %d to %d\<newline>'' [ArgInt 100, ArgInt 1500]]
     @ Call_getFullLuminosity #
     [Call_calculateLux 500 1000,
      Printf ''IR: %d  Full: %d  Visible: %d  Lux: %f\<newline>''
        [ArgInt 1000, ArgInt 500, ArgInt (- 500), ArgDouble ()],
      Call_getStatus, Printf ''Status: %x\<newline>'' [ArgInt 0], Call_clearInterrupt,
      Sleep 500]
     @ Call_getFullLuminosity #
     [Call_calculateLux 500 1000,
      Printf ''IR: %d  Full: %d  Visible: %d  Lux: %f\<newline>''
        [ArgInt 1000, ArgInt 500, ArgInt (- 500), ArgDouble ()]]
   \<and> filter is_sleep
       [Call_calculateLux 500 1000,
        Printf ''IR: %d  Full: %d  Visible: %d  Lux: %f\<newline>''
          [ArgInt 1000, ArgInt 500, ArgInt (- 500), ArgDouble ()],
        Sleep 500] = [Sleep 500 :: unit event]
   \<and> filter is_sleep
       [Call_calculateLux 500 1000,
        Printf ''IR: %d  Full: %d  Visible: %d  Lux: %f\<newline>''
          [ArgInt 1000, ArgInt 500, ArgInt (- 500), ArgDouble ()],
        Call_getStatus, Printf ''Status: %x\<newline>'' [ArgInt 0], Call_clearInterrupt,
        Sleep 500] = [Sleep 500 :: unit event]
   \<and> run_main clock_collaborator 4 0 =
       (L_sleep,
        \<lparr>dev = 0,
         out = [Printf ''Starting Adafruit TSL2591 Test!\<newline>'' [], Call_begin,
           Call_setGain TSL2591_GAIN_MED, Call_setTiming TSL2591_INTEGRATIONTIME_300MS,
           Printf ''------------------------------------\<newline>'' [],
           Printf ''Gain:         '' [], Call_getGain, Printf ''25x (Medium)\<newline>'' [],
           Printf ''------------------------------------\<newline>'' [],
           Call_getFullLuminosity, Call_calculateLux 500 1000,
           Printf ''IR: %d  Full: %d  Visible: %d  Lux: %f\<newline>''
             [ArgInt 1000, ArgInt 500, ArgInt (- 500), ArgDouble ()]]\<rparr>)
   \<and> fst (run_main clock_collaborator (Suc 4) 0) = L_advancedRead
   \<and> dev (snd (run_main clock_collaborator (Suc 4) 0)) = 500
   \<and> fst (run_main clock_collaborator (Suc (Suc 4)) 0) = L_sleep
   \<and> dev (snd (run_main clock_collaborator 8 0)) = 1000
   \<and> fst (run_main_int clock_collaborator 6 0) = I_sleep
   \<and> dev (snd (run_main_int clock_collaborator 6 0)) = 0
   \<and> fst (run_main_int clock_collaborator (Suc 6) 0) = I_advancedRead
   \<and> dev (snd (run_main_int clock_collaborator (Suc 6) 0)) = 500"
  (is "out (snd (run_main collaborator0 8 sensor0)) = ?pre @ _ # ?mid @ _ # ?post
     \<and> out (snd (run_main_int collaborator0 8 sensor0)) = ?pre' @ _ # ?mid' @ _ # ?post'
     \<and> _ \<and> _ \<and> run_main clock_collaborator 4 0 = (L_sleep, ?w4) \<and> _")
proof -
  have 1: "out (snd (run_main collaborator0 8 sensor0)) =
      ?pre @ Call_getFullLuminosity # ?mid @ Call_getFullLuminosity # ?post"
    by (simp add: run_example)
  have 2: "out (snd (run_main_int collaborator0 8 sensor0)) =
      ?pre' @ Call_getFullLuminosity # ?mid' @ Call_getFullLuminosity # ?post'"
    by (simp add: run_example)
  have 3: "Call_getFullLuminosity \<notin> set ?mid" "Call_getFullLuminosity \<notin> set ?mid'"
    by simp_all
  have 4: "filter is_sleep ?mid = [Sleep 500]" "filter is_sleep ?mid' = [Sleep 500]"
    using sleep_500_between_polls[of collaborator0 8 sensor0 ?pre ?mid ?post ?pre' ?mid' ?post'] 1 2 3
    by blast+
  have 5: "run_main clock_collaborator 4 0 = (L_sleep, ?w4)"
    by (simp add: run_example clock_collaborator_def)
  have 6: "fst (run_main_int clock_collaborator 6 0) = I_sleep"
    "dev (snd (run_main_int clock_collaborator 6 0)) = 0"
    by (simp_all add: run_example clock_collaborator_def)
  have 7: "run_main clock_collaborator (Suc 4) 0 =
      (L_advancedRead,
       \<lparr>dev = thread_sleep_for clock_collaborator 500 (dev (snd (run_main clock_collaborator 4 0))),
        out = out (snd (run_main clock_collaborator 4 0)) @ [Sleep 500]\<rparr>)"
    using sleep_500_between_polls[where c = clock_collaborator and d = 0 and m = 4] 5
    by simp
  have 8: "run_main_int clock_collaborator (Suc 6) 0 =
      (I_advancedRead,
       \<lparr>dev = thread_sleep_for clock_collaborator 500
          (dev (snd (run_main_int clock_collaborator 6 0))),
        out = out (snd (run_main_int clock_collaborator 6 0)) @ [Sleep 500]\<rparr>)"
    using sleep_500_between_polls[where c = clock_collaborator and d = 0 and m' = 6] 6
    by simp
  have 9: "run_main clock_collaborator (Suc (Suc 4)) 0 =
      (L_sleep, advancedRead clock_collaborator (snd (run_main clock_collaborator (Suc 4) 0)))"
    using sleep_500_between_polls[where c = clock_collaborator and d = 0 and m = "Suc 4"] 7
    by simp
  have 10: "dev (snd (run_main clock_collaborator 8 0)) = 1000"
    by (simp add: run_example clock_collaborator_def)
  have 11: "thread_sleep_for clock_collaborator 500 0 = 500"
    by (simp add: clock_collaborator_def)
  show ?thesis
    by (simp only: 1 2 4 5 6 7 8 9 10 11 fst_conv snd_conv world.simps simp_thms)
qed

section \<open>No sensor\<close>

lemma run_main_no_sensor:
  assumes "tsl_begin c d = (False, d1)"
  shows "run_main c 0 d = (L_start, \<lparr>dev = d, out = []\<rparr>)"
    and "run_main c 1 d =
      (L_begin, \<lparr>dev = d, out = [Printf ''Starting Adafruit TSL2591 Test!\<newline>'' []]\<rparr>)"
    and "run_main c 2 d =
      (L_no_sensor, \<lparr>dev = d1,
         out = [Printf ''Starting Adafruit TSL2591 Test!\<newline>'' [], Call_begin]\<rparr>)"
    and "run_main c (3 + k) d =
      (L_spin, \<lparr>dev = d1,
         out = [Printf ''Starting Adafruit TSL2591 Test!\<newline>'' [], Call_begin,
                Printf ''No sensor found ... check your wiring?\<newline>'' []]\<rparr>)"
proof -
  show 0: "run_main c 0 d = (L_start, \<lparr>dev = d, out = []\<rparr>)" by simp
  show 1: "run_main c 1 d =
      (L_begin, \<lparr>dev = d, out = [Printf ''Starting Adafruit TSL2591 Test!\<newline>'' []]\<rparr>)"
    by (simp add: world_ops)
  have "run_main c 2 d = main_step c (run_main c 1 d)"
    by (simp add: eval_nat_numeral)
  then show 2: "run_main c 2 d =
      (L_no_sensor, \<lparr>dev = d1,
         out = [Printf ''Starting Adafruit TSL2591 Test!\<newline>'' [], Call_begin]\<rparr>)"
    using assms by (simp add: 1 world_ops)
  show "run_main c (3 + k) d =
      (L_spin, \<lparr>dev = d1,
         out = [Printf ''Starting Adafruit TSL2591 Test!\<newline>'' [], Call_begin,
                Printf ''No sensor found ... check your wiring?\<newline>'' []]\<rparr>)"
  proof (induction k)
    case 0
    have "run_main c 3 d = main_step c (run_main c 2 d)"
      by (simp add: eval_nat_numeral)
    then show ?case by (simp add: 2 world_ops)
  next
    case (Suc k)
    have "run_main c (3 + Suc k) d = main_step c (run_main c (3 + k) d)"
      by (simp only: add_Suc_right run_main.simps)
    then show ?case by (simp only: Suc.IH main_step.simps)
  qed
qed

lemma run_main_int_no_sensor:
  assumes "tsl_begin c d = (False, d1)"
  shows "run_main_int c 0 d = (I_start, \<lparr>dev = d, out = []\<rparr>)"
    and "run_main_int c 1 d =
      (I_begin, \<lparr>dev = d, out = [Printf ''Starting Adafruit TSL2591 interrupt Test!\<newline>'' []]\<rparr>)"
    and "run_main_int c 2 d =
      (I_no_sensor, \<lparr>dev = d1,
         out = [Printf ''Starting Adafruit TSL2591 interrupt Test!\<newline>'' [], Call_begin]\<rparr>)"
    and "run_main_int c (3 + k) d =
      (I_spin, \<lparr>dev = d1,
         out = [Printf ''Starting Adafruit TSL2591 interrupt Test!\<newline>'' [], Call_begin,
                Printf ''No sensor found ... check your wiring?\<newline>'' []]\<rparr>)"
proof -
  show 0: "run_main_int c 0 d = (I_start, \<lparr>dev = d, out = []\<rparr>)" by simp
  show 1: "run_main_int c 1 d =
      (I_begin, \<lparr>dev = d, out = [Printf ''Starting Adafruit TSL2591 interrupt Test!\<newline>'' []]\<rparr>)"
    by (simp add: world_ops)
  have "run_main_int c 2 d = main_int_step c (run_main_int c 1 d)"
    by (simp add: eval_nat_numeral)
  then show 2: "run_main_int c 2 d =
      (I_no_sensor, \<lparr>dev = d1,
         out = [Printf ''Starting Adafruit TSL2591 interrupt Test!\<newline>'' [], Call_begin]\<rparr>)"
    using assms by (simp add: 1 world_ops)
  show "run_main_int c (3 + k) d =
      (I_spin, \<lparr>dev = d1,
         out = [Printf ''Starting Adafruit TSL2591 interrupt Test!\<newline>'' [], Call_begin,
                Printf ''No sensor found ... check your wiring?\<newline>'' []]\<rparr>)"
  proof (induction k)
    case 0
    have "run_main_int c 3 d = main_int_step c (run_main_int c 2 d)"
      by (simp add: eval_nat_numeral)
    then show ?case by (simp add: 2 world_ops)
  next
    case (Suc k)
    have "run_main_int c (3 + Suc k) d = main_int_step c (run_main_int c (3 + k) d)"
      by (simp only: add_Suc_right run_main_int.simps)
    then show ?case by (simp only: Suc.IH main_int_step.simps)
  qed
qed

lemma less_3_cases: "(n :: nat) < 3 \<Longrightarrow> n = 0 \<or> n = 1 \<or> n = 2"
  by arith

text \<open>
  C3: if \<^verbatim>\<open>begin\<close> returns false, then at every step of either sketch \<^verbatim>\<open>main\<close> has not
  returned, the only events are the start message, the call of \<^verbatim>\<open>begin\<close> and the
  no-sensor message (so no \<^verbatim>\<open>setGain\<close>, \<^verbatim>\<open>setTiming\<close>, \<^verbatim>\<open>registerInterrupt\<close> or
  \<^verbatim>\<open>getFullLuminosity\<close> call is ever made), and from the third step on the program stays
  in \<^verbatim>\<open>while (1);\<close> with its state unchanged.
\<close>

theorem no_sensor_halts_forever:
  assumes "tsl_begin c d = (False, d1)"
  shows "fst (run_main c n d) \<noteq> L_return \<and> fst (run_main_int c n d) \<noteq> I_return
    \<and> set (out (snd (run_main c n d))) \<subseteq>
        {Printf ''Starting Adafruit TSL2591 Test!\<newline>'' [], Call_begin,
         Printf ''No sensor found ... check your wiring?\<newline>'' []}
    \<and> set (out (snd (run_main_int c n d))) \<subseteq>
        {Printf ''Starting Adafruit TSL2591 interrupt Test!\<newline>'' [], Call_begin,
         Printf ''No sensor found ... check your wiring?\<newline>'' []}
    \<and> Call_setGain g \<notin> set (out (snd (run_main c n d))) \<union> set (out (snd (run_main_int c n d)))
    \<and> Call_setTiming t \<notin> set (out (snd (run_main c n d))) \<union> set (out (snd (run_main_int c n d)))
    \<and> Call_registerInterrupt lower upper persist \<notin>
        set (out (snd (run_main c n d))) \<union> set (out (snd (run_main_int c n d)))
    \<and> Call_getFullLuminosity \<notin>
        set (out (snd (run_main c n d))) \<union> set (out (snd (run_main_int c n d)))
    \<and> (3 \<le> n \<longrightarrow>
         run_main c n d =
           (L_spin, \<lparr>dev = d1,
              out = [Printf ''Starting Adafruit TSL2591 Test!\<newline>'' [], Call_begin,
                     Printf ''No sensor found ... check your wiring?\<newline>'' []]\<rparr>)
         \<and> run_main_int c n d =
           (I_spin, \<lparr>dev = d1,
              out = [Printf ''Starting Adafruit TSL2591 interrupt Test!\<newline>'' [], Call_begin,
                     Printf ''No sensor found ... check your wiring?\<newline>'' []]\<rparr>))"
proof (cases "n < 3")
  case True
  then have "n = 0 \<or> n = 1 \<or> n = 2" by (rule less_3_cases)
  then show ?thesis
    using run_main_no_sensor(1-3)[OF assms] run_main_int_no_sensor(1-3)[OF assms]
    by (elim disjE) simp_all
next
  case False
  then obtain k where "n = 3 + k" using le_Suc_ex[of 3 n] by auto
  then show ?thesis
    using run_main_no_sensor(4)[OF assms, of k] run_main_int_no_sensor(4)[OF assms, of k]
    by simp
qed

theorem no_sensor_halts_forever_witness:
  "tsl_begin collaborator0 (sensor0\<lparr>present := False\<rparr>) = (False, sensor0\<lparr>present := False\<rparr>)
   \<and> (3::nat) \<le> 7
   \<and> run_main collaborator0 7 (sensor0\<lparr>present := False\<rparr>) =
       (L_spin, \<lparr>dev = sensor0\<lparr>present := False\<rparr>,
          out = [Printf ''Starting Adafruit TSL2591 Test!\<newline>'' [], Call_begin,
                 Printf ''No sensor found ... check your wiring?\<newline>'' []]\<rparr>)
   \<and> run_main_int collaborator0 7 (sensor0\<lparr>present := False\<rparr>) =
       (I_spin, \<lparr>dev = sensor0\<lparr>present := False\<rparr>,
          out = [Printf ''Starting Adafruit TSL2591 interrupt Test!\<newline>'' [], Call_begin,
                 Printf ''No sensor found ... check your wiring?\<newline>'' []]\<rparr>)"
proof -
  have 1: "tsl_begin collaborator0 (sensor0\<lparr>present := False\<rparr>)
      = (False, sensor0\<lparr>present := False\<rparr>)"
    by (simp add: spec0)
  show ?thesis
    using no_sensor_halts_forever[OF 1, of 7] 1 by simp
qed

section \<open>registerInterrupt\<close>

lemma run_main_int_registers:
  "filter is_registerInterrupt (out (snd (run_main_int c n d))) =
     (if fst (run_main_int c n d) \<in> {I_advancedRead, I_getStatus, I_sleep}
      then [Call_registerInterrupt 100 1500 TSL2591_PERSIST_60] else [])"
proof (induction n)
  case 0
  show ?case by simp
next
  case (Suc n)
  obtain l w where lw: "run_main_int c n d = (l, w)" by (cases "run_main_int c n d")
  with Suc.IH have k: "filter is_registerInterrupt (out w) =
     (if l \<in> {I_advancedRead, I_getStatus, I_sleep}
      then [Call_registerInterrupt 100 1500 TSL2591_PERSIST_60] else [])" by simp
  show ?case
  proof (cases l)
    case I_begin
    with k lw show ?thesis
      by (auto simp add: world_ops split: prod.splits)
  next
    case I_getID
    with k lw show ?thesis
      by (auto simp add: world_ops split: prod.splits)
  next
    case I_advancedRead
    with k lw show ?thesis by (simp add: advancedRead_registers)
  next
    case I_getStatus
    with k lw show ?thesis by (simp add: getStatus_registers)
  next
    case I_configure
    with k lw show ?thesis by (simp add: configureSensor_int_registers)
  qed (use k lw in \<open>simp_all add: world_ops\<close>)
qed

lemma configureSensor_registers:
  "filter is_registerInterrupt (out (configureSensor c w)) = filter is_registerInterrupt (out w)"
  using configureSensor_new_events[of c w] by auto

lemma run_main_registers:
  "filter is_registerInterrupt (out (snd (run_main c n d))) = []"
proof (induction n)
  case 0
  show ?case by simp
next
  case (Suc n)
  obtain l w where lw: "run_main c n d = (l, w)" by (cases "run_main c n d")
  with Suc.IH have k: "filter is_registerInterrupt (out w) = []" by simp
  show ?case
  proof (cases l)
    case L_begin
    with k lw show ?thesis
      by (auto simp add: world_ops split: prod.splits)
  next
    case L_advancedRead
    with k lw show ?thesis by (simp add: advancedRead_registers)
  next
    case L_configure
    with k lw show ?thesis by (simp add: configureSensor_registers)
  qed (use k lw in \<open>simp_all add: world_ops\<close>)
qed

text \<open>
  C7: every call of \<^verbatim>\<open>registerInterrupt\<close> that the program makes has lower < upper. In a
  run of the interrupt sketch each such call has the arguments lower = 100 and
  upper = 1500 of the file's macros, the step that configures the sensor is
  \<^verbatim>\<open>configureSensor\<close>, and the collaborator's \<^verbatim>\<open>registerInterrupt\<close> is applied there to
  100 and 1500; the other sketch makes no such call. So no pair that violates
  lower < upper reaches the collaborator.
\<close>

theorem registerInterrupt_arguments:
  "(Call_registerInterrupt lo hi p \<in> set (out (snd (run_main_int c n d))) \<longrightarrow>
      lo = 100 \<and> hi = 1500 \<and> p = TSL2591_PERSIST_60 \<and> lo < hi)
   \<and> Call_registerInterrupt lo' hi' p' \<notin> set (out (snd (run_main c n d)))
   \<and> (fst (run_main_int c m d) = I_configure \<longrightarrow>
        run_main_int c (Suc m) d =
          (I_advancedRead, configureSensor_int c (snd (run_main_int c m d))))
   \<and> dev (configureSensor_int c w) =
        tsl_registerInterrupt c 100 1500 TSL2591_PERSIST_60
          (tsl_clearInterrupt c
            (snd (tsl_getGain c (tsl_setTiming c TSL2591_INTEGRATIONTIME_100MS
              (tsl_setGain c TSL2591_GAIN_MED (dev w))))))
   \<and> word_of_int TLS2591_INT_THRESHOLD_LOWER = (100 :: uint16_t)
   \<and> word_of_int TLS2591_INT_THRESHOLD_UPPER = (1500 :: uint16_t)
   \<and> TLS2591_INT_THRESHOLD_LOWER < TLS2591_INT_THRESHOLD_UPPER
   \<and> (100 :: uint16_t) < 1500"
proof -
  have a: "lo = 100 \<and> hi = 1500 \<and> p = TSL2591_PERSIST_60 \<and> lo < hi"
    if "Call_registerInterrupt lo hi p \<in> set (out (snd (run_main_int c n d)))"
  proof -
    from that have "Call_registerInterrupt lo hi p \<in>
        set (filter is_registerInterrupt (out (snd (run_main_int c n d))))"
      by simp
    then have "Call_registerInterrupt lo hi p = Call_registerInterrupt 100 1500 TSL2591_PERSIST_60"
      by (simp only: run_main_int_registers split: if_splits) simp_all
    then show ?thesis by simp
  qed
  have b: "dev (configureSensor_int c w) =
        tsl_registerInterrupt c 100 1500 TSL2591_PERSIST_60
          (tsl_clearInterrupt c
            (snd (tsl_getGain c (tsl_setTiming c TSL2591_INTEGRATIONTIME_100MS
              (tsl_setGain c TSL2591_GAIN_MED (dev w))))))"
  proof -
    obtain g' d1 where 1: "tsl_getGain c (tsl_setTiming c TSL2591_INTEGRATIONTIME_100MS
        (tsl_setGain c TSL2591_GAIN_MED (dev w))) = (g', d1)"
      by (cases "tsl_getGain c (tsl_setTiming c TSL2591_INTEGRATIONTIME_100MS
        (tsl_setGain c TSL2591_GAIN_MED (dev w)))")
    show ?thesis
      unfolding configureSensor_int_def
      by (simp add: configureSensor_int_with_world[OF 1] 1 TLS2591_INT_THRESHOLD_LOWER_def
          TLS2591_INT_THRESHOLD_UPPER_def TLS2591_INT_PERSIST_def)
  qed
  have c: "Call_registerInterrupt lo' hi' p' \<notin> set (out (snd (run_main c n d)))"
  proof
    assume "Call_registerInterrupt lo' hi' p' \<in> set (out (snd (run_main c n d)))"
    then have "Call_registerInterrupt lo' hi' p' \<in>
        set (filter is_registerInterrupt (out (snd (run_main c n d))))"
      by simp
    then show False by (simp only: run_main_registers) simp
  qed
  have e: "run_main_int c (Suc m) d =
      (I_advancedRead, configureSensor_int c (snd (run_main_int c m d)))"
    if "fst (run_main_int c m d) = I_configure"
    using that by (cases "run_main_int c m d") simp
  have f: "word_of_int TLS2591_INT_THRESHOLD_LOWER = (100 :: uint16_t)"
    "word_of_int TLS2591_INT_THRESHOLD_UPPER = (1500 :: uint16_t)"
    "TLS2591_INT_THRESHOLD_LOWER < TLS2591_INT_THRESHOLD_UPPER"
    "(100 :: uint16_t) < 1500"
    by (simp_all add: TLS2591_INT_THRESHOLD_LOWER_def TLS2591_INT_THRESHOLD_UPPER_def)
  show ?thesis
    using a b c e f by blast
qed

theorem registerInterrupt_arguments_witness:
  "Call_registerInterrupt 100 1500 TSL2591_PERSIST_60 \<in>
     set (out (snd (run_main_int collaborator0 4 sensor0)))
   \<and> (100 :: uint16_t) < 1500
   \<and> fst (run_main_int collaborator0 3 sensor0) = I_configure
   \<and> interrupt_config sensor0 = None
   \<and> interrupt_config (dev (snd (run_main_int collaborator0 (Suc 3) sensor0))) =
       Some (100, 1500, TSL2591_PERSIST_60)"
proof -
  have 1: "Call_registerInterrupt 100 1500 TSL2591_PERSIST_60 \<in>
     set (out (snd (run_main_int collaborator0 4 sensor0)))"
    by (simp add: run_example)
  have 2: "(100 :: uint16_t) < 1500" by simp
  have 3: "fst (run_main_int collaborator0 3 sensor0) = I_configure"
    by (simp add: run_example)
  have 4: "interrupt_config sensor0 = None" by (simp add: sensor0_def)
  have 5: "interrupt_config (dev (configureSensor_int collaborator0 w)) =
      Some (100, 1500, TSL2591_PERSIST_60)" for w
    using registerInterrupt_arguments[of 100 1500 TSL2591_PERSIST_60 collaborator0 4 sensor0
        _ _ _ 3 w]
    by (simp add: collaborator0_def spec_collaborator_def)
  have 6: "run_main_int collaborator0 (Suc 3) sensor0 =
      (I_advancedRead, configureSensor_int collaborator0 (snd (run_main_int collaborator0 3 sensor0)))"
    using registerInterrupt_arguments[of 100 1500 TSL2591_PERSIST_60 collaborator0 4 sensor0
        _ _ _ 3] 3
    by blast
  show ?thesis
    using 1 2 3 4 5 6 by simp
qed

section \<open>The order of clearInterrupt and registerInterrupt\<close>

text \<open>
  C10: in \<^verbatim>\<open>configureSensor\<close> of the interrupt sketch the call of \<^verbatim>\<open>clearInterrupt\<close> comes
  directly before the call of \<^verbatim>\<open>registerInterrupt\<close>, which runs on the state that
  \<^verbatim>\<open>clearInterrupt\<close> returns; and on the collaborator of the specification, whatever
  status a present sensor has latched at the start, the program reaches its first poll
  with the latched status zero.
\<close>

theorem clearInterrupt_before_registerInterrupt:
  assumes "tsl_getGain c (tsl_setTiming c TSL2591_INTEGRATIONTIME_100MS
             (tsl_setGain c TSL2591_GAIN_MED (dev w))) = (g', d1)"
    and "present d"
  shows "configureSensor_int c w =
     \<lparr>dev = tsl_registerInterrupt c 100 1500 TSL2591_PERSIST_60 (tsl_clearInterrupt c d1),
      out = out w @ [Call_setGain TSL2591_GAIN_MED, Call_setTiming TSL2591_INTEGRATIONTIME_100MS,
        Printf dashes [], Printf ''Gain:         '' [], Call_getGain, Printf (gain_text g') [],
        Printf dashes [], Call_clearInterrupt,
        Call_registerInterrupt 100 1500 TSL2591_PERSIST_60,
        Printf ''Interrupt Threshold Window: %d to %d\<newline>'' [ArgInt 100, ArgInt 1500]]\<rparr>
   \<and> fst (run_main_int (spec_collaborator lux) 4 d) = I_advancedRead
   \<and> latched (dev (snd (run_main_int (spec_collaborator lux) 4 d))) = 0
   \<and> Call_getFullLuminosity \<notin> set (out (snd (run_main_int (spec_collaborator lux) 4 d)))"
proof -
  have 1: "configureSensor_int c w =
     \<lparr>dev = tsl_registerInterrupt c 100 1500 TSL2591_PERSIST_60 (tsl_clearInterrupt c d1),
      out = out w @ [Call_setGain TSL2591_GAIN_MED, Call_setTiming TSL2591_INTEGRATIONTIME_100MS,
        Printf dashes [], Printf ''Gain:         '' [], Call_getGain, Printf (gain_text g') [],
        Printf dashes [], Call_clearInterrupt,
        Call_registerInterrupt 100 1500 TSL2591_PERSIST_60,
        Printf ''Interrupt Threshold Window: %d to %d\<newline>'' [ArgInt 100, ArgInt 1500]]\<rparr>"
    unfolding configureSensor_int_def
    by (simp add: configureSensor_int_with_world[OF assms(1)] TLS2591_INT_THRESHOLD_LOWER_def
        TLS2591_INT_THRESHOLD_UPPER_def TLS2591_INT_PERSIST_def)
  have 2: "fst (run_main_int (spec_collaborator lux) 4 d) = I_advancedRead
   \<and> latched (dev (snd (run_main_int (spec_collaborator lux) 4 d))) = 0
   \<and> Call_getFullLuminosity \<notin> set (out (snd (run_main_int (spec_collaborator lux) 4 d)))"
    using assms(2)
    by (simp add: run_main_int_numeral spec_collaborator_def world_ops configureSensor_int_def
        configureSensor_int_with_def Let_def)
  from 1 2 show ?thesis by simp
qed

theorem clearInterrupt_before_registerInterrupt_witness:
  "tsl_getGain collaborator0 (tsl_setTiming collaborator0 TSL2591_INTEGRATIONTIME_100MS
      (tsl_setGain collaborator0 TSL2591_GAIN_MED (dev \<lparr>dev = sensor0, out = []\<rparr>)))
     = (TSL2591_GAIN_MED,
        sensor0\<lparr>gain := TSL2591_GAIN_MED, timing := TSL2591_INTEGRATIONTIME_100MS\<rparr>)
   \<and> present sensor0 \<and> latched sensor0 = 0x30
   \<and> latched (dev (configureSensor_int collaborator0 \<lparr>dev = sensor0, out = []\<rparr>)) = 0
   \<and> latched (dev (snd (run_main_int collaborator0 4 sensor0))) = 0"
proof -
  have 1: "tsl_getGain collaborator0 (tsl_setTiming collaborator0 TSL2591_INTEGRATIONTIME_100MS
      (tsl_setGain collaborator0 TSL2591_GAIN_MED (dev \<lparr>dev = sensor0, out = []\<rparr>)))
     = (TSL2591_GAIN_MED,
        sensor0\<lparr>gain := TSL2591_GAIN_MED, timing := TSL2591_INTEGRATIONTIME_100MS\<rparr>)"
    by (simp add: spec0)
  have 2: "present sensor0" "latched sensor0 = 0x30" by (simp_all add: sensor0_def)
  show ?thesis
    using clearInterrupt_before_registerInterrupt[OF 1 2(1), of "\<lambda>full ir. ()"] 1 2
    by (simp add: spec0)
qed

end
